theory Spec2Isabelle
  imports Main "HOL-Library.Word"
begin

section \<open>Go primitives used by the program\<close>

text \<open>
  Go's \<open>int\<close> is a 64-bit two's complement integer on the platforms the program is built
  for (linux/amd64); \<open>+\<close> wraps around silently.
\<close>

type_synonym go_int = "64 word"

text \<open>Decimal digits of a natural number, most significant first, \<open>0\<close> as \<open>''0''\<close>.\<close>

definition digit_char :: "nat \<Rightarrow> char" where
  "digit_char d = char_of (48 + d)"

fun dec_nat :: "nat \<Rightarrow> string" where
  "dec_nat n = (if n < 10 then [digit_char n] else dec_nat (n div 10) @ [digit_char (n mod 10)])"

declare dec_nat.simps [simp del]

text \<open>\<open>strconv.Itoa\<close> (and \<open>%d\<close> of \<open>fmt.Sprintf\<close>): signed decimal.\<close>

definition Itoa :: "go_int \<Rightarrow> string" where
  "Itoa w = (if sint w < 0 then CHR ''-'' # dec_nat (nat (- sint w)) else dec_nat (nat (sint w)))"

definition digit_val :: "char \<Rightarrow> nat option" where
  "digit_val c = (let n = (of_char c :: nat) in if 48 \<le> n \<and> n \<le> 57 then Some (n - 48) else None)"

fun parse_digits :: "nat \<Rightarrow> string \<Rightarrow> nat option" where
  "parse_digits acc [] = Some acc"
| "parse_digits acc (c # cs) =
     (case digit_val c of None \<Rightarrow> None | Some d \<Rightarrow> parse_digits (acc * 10 + d) cs)"

text \<open>
  \<open>strconv.Atoi\<close>: an optional sign, then at least one decimal digit and nothing else; the
  value has to fit a 64-bit \<open>int\<close>. \<open>None\<close> is the returned error.
\<close>

definition Atoi :: "string \<Rightarrow> go_int option" where
  "Atoi s =
     (case s of
        [] \<Rightarrow> None
      | c # cs \<Rightarrow>
          (let neg = (c = CHR ''-'');
               ds = (if c = CHR ''-'' \<or> c = CHR ''+'' then cs else s)
           in if ds = [] then None
              else (case parse_digits 0 ds of
                      None \<Rightarrow> None
                    | Some n \<Rightarrow>
                        (let i = (if neg then - int n else int n)
                         in if - (2 ^ 63) \<le> i \<and> i \<le> 2 ^ 63 - 1 then Some (word_of_int i)
                            else None))))"

text \<open>\<open>strings.HasPrefix\<close>.\<close>

definition HasPrefix :: "string \<Rightarrow> string \<Rightarrow> bool" where
  "HasPrefix s pre = (take (length pre) s = pre)"

text \<open>\<open>strings.Replace(s, old, new, 1)\<close> for a non-empty \<open>old\<close>: the first occurrence only.\<close>

fun Replace1 :: "string \<Rightarrow> string \<Rightarrow> string \<Rightarrow> string" where
  "Replace1 [] old new = []"
| "Replace1 (c # cs) old new =
     (if HasPrefix (c # cs) old then new @ drop (length old) (c # cs)
      else c # Replace1 cs old new)"

section \<open>The process supervisor (app.go)\<close>

record Server =
  ID :: string
  Name :: string
  Port :: string
  Directory :: string
  Running :: bool
  VLANInterface :: string
  IPv6Address :: string

text \<open>An \<open>exec.Cmd\<close>: the program, its arguments and its working directory.\<close>

record Cmd =
  Path :: string
  Args :: "string list"
  Dir :: string

text \<open>
  In the definitions below \<open>sid\<close> stands for the parameter the source calls \<open>id\<close>, a name
  that HOL gives to the identity function.

  The maps of the \<open>App\<close> hold pointers to \<open>Server\<close> objects, and the operations write
  through these pointers. The model keeps the pointers: \<open>servers\<close> maps an identity to an
  address, \<open>store\<close> is the part of the Go heap that holds \<open>Server\<close> objects, and \<open>fresh\<close>
  is the next address \<open>&Server{...}\<close> allocates. The mutex is not modelled: every operation
  runs alone, in the order of its statements.
\<close>

record App =
  servers :: "string \<rightharpoonup> nat"
  nextID :: go_int
  processes :: "string \<rightharpoonup> Cmd"
  store :: "nat \<Rightarrow> Server"
  fresh :: nat

definition zero_Server :: Server where
  "zero_Server = \<lparr>ID = [], Name = [], Port = [], Directory = [], Running = False,
     VLANInterface = [], IPv6Address = []\<rparr>"

definition NewApp :: App where
  "NewApp = \<lparr>servers = Map.empty, nextID = 1, processes = Map.empty,
     store = (\<lambda>_. zero_Server), fresh = 0\<rparr>"

text \<open>\<open>&Server{...}\<close>: a new object at a new address.\<close>

definition new_Server :: "Server \<Rightarrow> App \<Rightarrow> nat \<times> App" where
  "new_Server v a = (fresh a, a\<lparr>store := (store a)(fresh a := v), fresh := Suc (fresh a)\<rparr>)"

text \<open>\<open>server.Running = b\<close> through the pointer \<open>p\<close>.\<close>

definition set_Running :: "nat \<Rightarrow> bool \<Rightarrow> App \<Rightarrow> App" where
  "set_Running p b a = a\<lparr>store := (store a)(p := (store a p)\<lparr>Running := b\<rparr>)\<rparr>"

text \<open>
  \<open>GetServers\<close> appends the pointer of every map entry to a slice. Go visits the keys of
  a map in an unspecified order; \<open>ks\<close> is the order of this visit.
\<close>

definition GetServers :: "string list \<Rightarrow> App \<Rightarrow> nat list \<times> App" where
  "GetServers ks a = (List.map_filter (servers a) ks, a)"

definition CreateServer :: "string \<Rightarrow> string \<Rightarrow> string \<Rightarrow> App \<Rightarrow> string \<times> App" where
  "CreateServer name port directory a =
     (let sid = Itoa (nextID a);
          a1 = a\<lparr>nextID := nextID a + 1\<rparr>;
          (p, a2) = new_Server \<lparr>ID = sid, Name = name, Port = port, Directory = directory,
                      Running = False, VLANInterface = [], IPv6Address = []\<rparr> a1
      in (sid, a2\<lparr>servers := (servers a2)(sid \<mapsto> p)\<rparr>))"

text \<open>
  \<open>StopServer\<close>; \<open>kill_ok\<close> tells whether \<open>cmd.Process.Kill()\<close> returns no error.
\<close>

definition StopServer :: "bool \<Rightarrow> string \<Rightarrow> App \<Rightarrow> bool \<times> App" where
  "StopServer kill_ok sid a =
     (case servers a sid of
        None \<Rightarrow> (False, a)
      | Some p \<Rightarrow>
          if \<not> Running (store a p) then (False, a)
          else (case processes a sid of
                  None \<Rightarrow> (True, set_Running p False a)
                | Some cmd \<Rightarrow>
                    if \<not> kill_ok then (False, a)
                    else (True, set_Running p False (a\<lparr>processes := (processes a)(sid := None)\<rparr>))))"

definition UpdateServer ::
  "bool \<Rightarrow> string \<Rightarrow> string \<Rightarrow> string \<Rightarrow> string \<Rightarrow> App \<Rightarrow> bool \<times> App" where
  "UpdateServer kill_ok sid name port directory a =
     (case servers a sid of
        None \<Rightarrow> (False, a)
      | Some p \<Rightarrow>
          (let a1 = (if Running (store a p) then snd (StopServer kill_ok sid a) else a)
           in (True, a1\<lparr>store := (store a1)(p := (store a1 p)\<lparr>Name := name, Port := port,
                                                     Directory := directory\<rparr>)\<rparr>)))"

definition DeleteServer :: "bool \<Rightarrow> string \<Rightarrow> App \<Rightarrow> bool \<times> App" where
  "DeleteServer kill_ok sid a =
     (case servers a sid of
        None \<Rightarrow> (False, a)
      | Some p \<Rightarrow>
          (let a1 = (if Running (store a p) then snd (StopServer kill_ok sid a) else a)
           in (True, a1\<lparr>servers := (servers a1)(sid := None)\<rparr>)))"

text \<open>
  What \<open>StartServer\<close> reads from the operating system: the user name
  (\<open>getCurrentUsername\<close>), the working directory (\<open>os.Getwd\<close>) and whether \<open>cmd.Start()\<close>
  returns no error.
\<close>

record start_env =
  username :: string
  cwd :: string
  start_ok :: bool

definition server_command :: "Server \<Rightarrow> string" where
  "server_command srv =
     (let listenAddr = (if IPv6Address srv \<noteq> [] then ''['' @ IPv6Address srv @ '']'' else ''0.0.0.0'')
      in ''frankenphp php-server --listen '' @ listenAddr @ '':'' @ Port srv @ '' -r '' @ Directory srv)"

definition StartServer :: "start_env \<Rightarrow> string \<Rightarrow> App \<Rightarrow> bool \<times> App" where
  "StartServer env sid a =
     (case servers a sid of
        None \<Rightarrow> (False, a)
      | Some p \<Rightarrow>
          if Running (store a p) then (False, a)
          else
            (let command = server_command (store a p);
                 fullCommand = ''sudo -u '' @ username env @ '' /bin/bash -c '' @ [CHR 0x27] @ command @ [CHR 0x27];
                 cmd = \<lparr>Path = ''/bin/bash'', Args = [''/bin/bash'', ''-c'', fullCommand], Dir = cwd env\<rparr>
             in if \<not> start_ok env then (False, a)
                else (True, set_Running p True (a\<lparr>processes := (processes a)(sid \<mapsto> cmd)\<rparr>))))"

text \<open>
  The goroutine \<open>StartServer\<close> leaves behind: when the process of \<open>sid\<close> exits, it deletes
  the handle and clears the flag of the record it captured.
\<close>

definition watcher :: "string \<Rightarrow> nat \<Rightarrow> App \<Rightarrow> App" where
  "watcher sid p a = set_Running p False (a\<lparr>processes := (processes a)(sid := None)\<rparr>)"

definition GetServerStatus :: "string \<Rightarrow> App \<Rightarrow> (bool \<times> bool) \<times> App" where
  "GetServerStatus sid a =
     (case servers a sid of
        None \<Rightarrow> ((False, False), a)
      | Some p \<Rightarrow> ((True, Running (store a p)), a))"

section \<open>Persisted configuration (app.go)\<close>

text \<open>
  The decoded snapshot: the members of the JSON object \<open>servers\<close> in the order of the
  file, and \<open>nextID\<close>. \<open>json.Unmarshal\<close> allocates one \<open>Server\<close> object for each member and
  stores its pointer under the member's key, so a key that occurs twice keeps the later
  member. \<open>saveConfig\<close> writes the records of the map itself, hence neither a \<open>null\<close> member
  nor a missing \<open>servers\<close> object occurs in a snapshot it wrote.
\<close>

record AppConfig =
  Servers :: "(string \<times> Server) list"
  NextID :: go_int

text \<open>What \<open>loadConfig\<close> gets from \<open>ioutil.ReadFile\<close> and \<open>json.Unmarshal\<close>.\<close>

datatype config_file = ReadFileError | UnmarshalError | Config AppConfig

fun unmarshal_Servers ::
  "(string \<times> Server) list \<Rightarrow> (string \<rightharpoonup> nat) \<Rightarrow> App \<Rightarrow> (string \<rightharpoonup> nat) \<times> App" where
  "unmarshal_Servers [] m a = (m, a)"
| "unmarshal_Servers ((k, v) # es) m a =
     (let (p, a') = new_Server v a in unmarshal_Servers es (m(k \<mapsto> p)) a')"

text \<open>The loop \<open>for _, server := range a.servers { server.Running = false }\<close> over the keys \<open>ks\<close>.\<close>

fun clear_Running :: "string list \<Rightarrow> App \<Rightarrow> App" where
  "clear_Running [] a = a"
| "clear_Running (k # ks) a =
     clear_Running ks (case servers a k of None \<Rightarrow> a | Some p \<Rightarrow> set_Running p False a)"

definition loadConfig :: "config_file \<Rightarrow> App \<Rightarrow> App" where
  "loadConfig f a =
     (case f of
        ReadFileError \<Rightarrow> a
      | UnmarshalError \<Rightarrow> a
      | Config config \<Rightarrow>
          (let (m, a1) = unmarshal_Servers (Servers config) Map.empty a;
               a2 = a1\<lparr>servers := m, nextID := NextID config\<rparr>
           in clear_Running (remdups (map fst (Servers config))) a2))"

definition startup :: "config_file \<Rightarrow> App \<Rightarrow> App" where
  "startup f a = loadConfig f a"

text \<open>The record a snapshot holds for a key: the last member with that key.\<close>

definition snapshot_lookup :: "AppConfig \<Rightarrow> string \<rightharpoonup> Server" where
  "snapshot_lookup config = map_of (rev (Servers config))"

section \<open>The network interface provisioner (VLAN manager)\<close>

text \<open>
  A \<open>VLANInterface\<close>. Its fields \<open>Name\<close>, \<open>IPv6Address\<close> and \<open>Port\<close> carry the prefix \<open>If\<close>
  here, the plain names being fields of \<open>Server\<close> already. The maps of the manager hold
  pointers to these objects, but an object is written (\<open>vlan.Active = true\<close>) only before it
  is registered and never afterwards, so the model stores the objects themselves.
\<close>

record VLANInterface =
  IfName :: string
  VLANID :: go_int
  IfIPv6Address :: string
  IfPort :: string
  Active :: bool

record VLANManager =
  ipv6Prefix :: string
  interfaces :: "string \<rightharpoonup> VLANInterface"
  portToVLAN :: "string \<rightharpoonup> string"

definition NewVLANManager :: "string \<Rightarrow> VLANManager" where
  "NewVLANManager prefix = \<lparr>ipv6Prefix = prefix, interfaces = Map.empty, portToVLAN = Map.empty\<rparr>"

text \<open>
  The operating system as the manager sees it in one call: the result of
  \<open>net.Interfaces()\<close> (\<open>None\<close> for its error) and, for every command line, whether
  \<open>cmd.Run()\<close> returns no error.
\<close>

record net_Interface =
  iface_Name :: string
  FlagUp :: bool
  FlagLoopback :: bool

record os =
  net_Interfaces :: "net_Interface list option"
  cmd_Run :: "string list \<Rightarrow> bool"

datatype os_error = NetInterfacesFailed | LinkAddFailed | LinkUpFailed | AddrAddFailed

datatype vlan_error = InvalidPortNumber string | FailedToCreate os_error | FailedToRemove

fun first_main_interface :: "net_Interface list \<Rightarrow> string" where
  "first_main_interface [] = ''wlan0''"
| "first_main_interface (iface # ifaces) =
     (if FlagUp iface \<and> \<not> FlagLoopback iface \<and>
         \<not> HasPrefix (iface_Name iface) ''lo'' \<and>
         \<not> HasPrefix (iface_Name iface) ''docker'' \<and>
         \<not> HasPrefix (iface_Name iface) ''veth'' \<and>
         \<not> HasPrefix (iface_Name iface) ''br-''
      then iface_Name iface
      else first_main_interface ifaces)"

definition getMainInterface :: "os \<Rightarrow> os_error + string" where
  "getMainInterface sys =
     (case net_Interfaces sys of
        None \<Rightarrow> Inl NetInterfacesFailed
      | Some ifaces \<Rightarrow> Inr (first_main_interface ifaces))"

definition createLinuxVLANInterface :: "os \<Rightarrow> VLANInterface \<Rightarrow> os_error + VLANInterface" where
  "createLinuxVLANInterface sys vlan =
     (case getMainInterface sys of
        Inl e \<Rightarrow> Inl e
      | Inr mainInterface \<Rightarrow>
          if \<not> cmd_Run sys [''sudo'', ''ip'', ''link'', ''add'', ''link'', mainInterface, ''name'',
                            IfName vlan, ''type'', ''vlan'', ''id'', Itoa (VLANID vlan)]
          then Inl LinkAddFailed
          else if \<not> cmd_Run sys [''sudo'', ''ip'', ''link'', ''set'', ''dev'', IfName vlan, ''up'']
          then Inl LinkUpFailed
          else if \<not> cmd_Run sys [''sudo'', ''ip'', ''-6'', ''addr'', ''add'',
                                 IfIPv6Address vlan @ ''/64'', ''dev'', IfName vlan]
          then Inl AddrAddFailed
          else Inr (vlan\<lparr>Active := True\<rparr>))"

text \<open>
  \<open>CreateVLANInterface\<close> returns a pointer and an error: \<open>Inl\<close> is the error, \<open>Inr None\<close> the
  nil pointer the source returns without an error when the port is indexed but its
  interface is not in the map.
\<close>

definition CreateVLANInterface ::
  "os \<Rightarrow> string \<Rightarrow> VLANManager \<Rightarrow> (vlan_error + VLANInterface option) \<times> VLANManager" where
  "CreateVLANInterface sys port vm =
     (case portToVLAN vm port of
        Some existingVLAN \<Rightarrow> (Inr (interfaces vm existingVLAN), vm)
      | None \<Rightarrow>
          (case Atoi port of
             None \<Rightarrow> (Inl (InvalidPortNumber port), vm)
           | Some portNum \<Rightarrow>
               (let vlanID = portNum;
                    interfaceName = ''vlan'' @ Itoa vlanID;
                    ipv6Addr = Replace1 (ipv6Prefix vm) ''/64'' [] @ ''::'' @ port;
                    vlanInterface = \<lparr>IfName = interfaceName, VLANID = vlanID,
                                      IfIPv6Address = ipv6Addr, IfPort = port, Active = False\<rparr>
                in (case createLinuxVLANInterface sys vlanInterface of
                      Inl e \<Rightarrow> (Inl (FailedToCreate e), vm)
                    | Inr created \<Rightarrow>
                        (Inr (Some created),
                         vm\<lparr>interfaces := (interfaces vm)(interfaceName \<mapsto> created),
                            portToVLAN := (portToVLAN vm)(port \<mapsto> interfaceName)\<rparr>)))))"

text \<open>A call either returns or panics on a nil pointer.\<close>

datatype 'a go_result = Panic | Return 'a

definition RemoveVLANInterface ::
  "os \<Rightarrow> string \<Rightarrow> VLANManager \<Rightarrow> vlan_error option go_result \<times> VLANManager" where
  "RemoveVLANInterface sys port vm =
     (case portToVLAN vm port of
        None \<Rightarrow> (Return None, vm)
      | Some vlanName \<Rightarrow>
          (case interfaces vm vlanName of
             None \<Rightarrow> (Panic, vm)
           | Some vlan \<Rightarrow>
               if \<not> cmd_Run sys [''sudo'', ''ip'', ''link'', ''delete'', IfName vlan]
               then (Return (Some FailedToRemove), vm)
               else (Return None,
                     vm\<lparr>interfaces := (interfaces vm)(vlanName := None),
                        portToVLAN := (portToVLAN vm)(port := None)\<rparr>)))"

definition GetVLANForPort :: "string \<Rightarrow> VLANManager \<Rightarrow> VLANInterface option" where
  "GetVLANForPort port vm =
     (case portToVLAN vm port of None \<Rightarrow> None | Some vlanName \<Rightarrow> interfaces vm vlanName)"

section \<open>The create handler (handlers.go)\<close>

text \<open>
  The request body after \<open>json.NewDecoder(r.Body).Decode\<close>: \<open>None\<close> for a decoding error,
  otherwise name, port and directory. The response is the status with its message, or the
  JSON object with the identity, the interface name and the address; \<open>Panicked\<close> is the nil
  dereference of \<open>vlanInterface.Name\<close>.
\<close>

datatype bad_request = DecodeError | AllFieldsRequired | PortMustBeANumber

datatype response =
    BadRequest bad_request
  | InternalServerError vlan_error
  | OK_JSON string string string
  | Panicked

definition handleCreateServerWithVLAN ::
  "os \<Rightarrow> (string \<times> string \<times> string) option \<Rightarrow> App \<times> VLANManager \<Rightarrow> response \<times> App \<times> VLANManager" where
  "handleCreateServerWithVLAN sys body st =
     (let (a, vm) = st in
      case body of
        None \<Rightarrow> (BadRequest DecodeError, a, vm)
      | Some (name, port, directory) \<Rightarrow>
          if name = [] \<or> port = [] \<or> directory = [] then (BadRequest AllFieldsRequired, a, vm)
          else (case Atoi port of
                  None \<Rightarrow> (BadRequest PortMustBeANumber, a, vm)
                | Some _ \<Rightarrow>
                    (case CreateVLANInterface sys port vm of
                       (Inl e, vm') \<Rightarrow> (InternalServerError e, a, vm')
                     | (Inr vlanInterface, vm') \<Rightarrow>
                         (let (sid, a1) = CreateServer name port directory a in
                          case servers a1 sid of
                            None \<Rightarrow>
                              (case vlanInterface of
                                 None \<Rightarrow> (Panicked, a1, vm')
                               | Some v \<Rightarrow> (OK_JSON sid (IfName v) (IfIPv6Address v), a1, vm'))
                          | Some p \<Rightarrow>
                              (case vlanInterface of
                                 None \<Rightarrow> (Panicked, a1, vm')
                               | Some v \<Rightarrow>
                                   (OK_JSON sid (IfName v) (IfIPv6Address v),
                                    a1\<lparr>store := (store a1)(p := (store a1 p)
                                          \<lparr>VLANInterface := IfName v,
                                           IPv6Address := IfIPv6Address v\<rparr>)\<rparr>,
                                    vm'))))))"

section \<open>Supervisor operations and the identity invariant\<close>

datatype supervisor_op =
    OpGetServers "string list"
  | OpCreateServer string string string
  | OpUpdateServer bool string string string string
  | OpDeleteServer bool string
  | OpStartServer start_env string
  | OpStopServer bool string
  | OpGetServerStatus string
  | OpWatcher string nat

fun run_op :: "supervisor_op \<Rightarrow> App \<Rightarrow> App" where
  "run_op (OpGetServers ks) a = snd (GetServers ks a)"
| "run_op (OpCreateServer name port directory) a = snd (CreateServer name port directory a)"
| "run_op (OpUpdateServer kill_ok sid name port directory) a =
     snd (UpdateServer kill_ok sid name port directory a)"
| "run_op (OpDeleteServer kill_ok sid) a = snd (DeleteServer kill_ok sid a)"
| "run_op (OpStartServer env sid) a = snd (StartServer env sid a)"
| "run_op (OpStopServer kill_ok sid) a = snd (StopServer kill_ok sid a)"
| "run_op (OpGetServerStatus sid) a = snd (GetServerStatus sid a)"
| "run_op (OpWatcher sid p) a = watcher sid p a"

fun is_create :: "supervisor_op \<Rightarrow> bool" where
  "is_create (OpCreateServer name port directory) = True"
| "is_create _ = False"

text \<open>
  \<open>nextID\<close> is greater than the number every identity of the map denotes (the number
  \<open>strconv.Atoi\<close> reads from it), as signed 64-bit integers.
\<close>

definition nextID_inv :: "App \<Rightarrow> bool" where
  "nextID_inv a = (\<forall>sid \<in> dom (servers a). \<forall>n. Atoi sid = Some n \<longrightarrow> sint n < sint (nextID a))"

section \<open>Example states\<close>

definition web1 :: App where
  "web1 = snd (CreateServer ''web1'' ''9090'' ''/srv/app'' NewApp)"

definition env0 :: start_env where
  "env0 = \<lparr>username = ''root'', cwd = ''/'', start_ok = True\<rparr>"

definition web1_running :: App where
  "web1_running = snd (StartServer env0 ''1'' web1)"

text \<open>Running without a handle.\<close>

definition web1_no_handle :: App where
  "web1_no_handle = web1_running\<lparr>processes := Map.empty\<rparr>"

definition last_id :: App where
  "last_id = NewApp\<lparr>nextID := 0x7FFFFFFFFFFFFFFF\<rparr>"

definition os_ok :: os where
  "os_ok = \<lparr>net_Interfaces = Some [\<lparr>iface_Name = ''eth0'', FlagUp = True, FlagLoopback = False\<rparr>],
            cmd_Run = (\<lambda>_. True)\<rparr>"

definition os_fail :: os where
  "os_fail = \<lparr>net_Interfaces = Some [], cmd_Run = (\<lambda>_. False)\<rparr>"

definition vm0 :: VLANManager where
  "vm0 = NewVLANManager ''2a0e:b107:384:ee25::/64''"

definition vm8080 :: VLANManager where
  "vm8080 = snd (CreateVLANInterface os_ok ''8080'' vm0)"

definition snapshot1 :: AppConfig where
  "snapshot1 = \<lparr>Servers = [(''1'', \<lparr>ID = ''1'', Name = ''web1'', Port = ''9090'',
       Directory = ''/srv/app'', Running = True, VLANInterface = ''vlan9090'',
       IPv6Address = ''2a0e:b107:384:ee25::::9090''\<rparr>)], NextID = 2\<rparr>"

section \<open>Evaluation of the primitives\<close>

lemma dec_nat_small: "n < 10 \<Longrightarrow> dec_nat n = [digit_char n]"
  by (simp add: dec_nat.simps)

lemma dec_nat_big: "\<not> n < 10 \<Longrightarrow> dec_nat n = dec_nat (n div 10) @ [digit_char (n mod 10)]"
  by (subst dec_nat.simps) simp

lemma digit_char_numerals:
  "digit_char 0 = CHR ''0''" "digit_char 1 = CHR ''1''" "digit_char 2 = CHR ''2''"
  "digit_char 3 = CHR ''3''" "digit_char 4 = CHR ''4''" "digit_char 5 = CHR ''5''"
  "digit_char 6 = CHR ''6''" "digit_char 7 = CHR ''7''" "digit_char 8 = CHR ''8''"
  "digit_char 9 = CHR ''9''" "digit_char (Suc 0) = CHR ''1''"
  by (simp_all add: digit_char_def char_of_def bit_Suc_0_iff)

lemmas Itoa_eval = Itoa_def dec_nat_small dec_nat_big digit_char_numerals

lemmas Atoi_eval = Atoi_def digit_val_def

lemma Itoa_1: "Itoa 1 = ''1''"
  by (simp add: Itoa_eval)

section \<open>The example states, evaluated\<close>

lemma web1_eq:
  "web1 = \<lparr>servers = [''1'' \<mapsto> 0], nextID = 2, processes = Map.empty,
     store = (\<lambda>_. zero_Server)(0 := \<lparr>ID = ''1'', Name = ''web1'', Port = ''9090'',
        Directory = ''/srv/app'', Running = False, VLANInterface = [], IPv6Address = []\<rparr>),
     fresh = 1\<rparr>"
  by (simp add: web1_def CreateServer_def NewApp_def new_Server_def Itoa_1 Let_def)

lemma web1_servers: "servers web1 = [''1'' \<mapsto> 0]" "Running (store web1 0) = False"
  "processes web1 = Map.empty"
  by (simp_all add: web1_eq)

lemma web1_running_facts: "servers web1_running = [''1'' \<mapsto> 0]" "Running (store web1_running 0) = True"
  "processes web1_running ''1'' \<noteq> None"
  by (simp_all add: web1_running_def StartServer_def web1_servers env0_def set_Running_def)

lemma web1_no_handle_facts: "servers web1_no_handle = [''1'' \<mapsto> 0]" "Running (store web1_no_handle 0) = True"
  "processes web1_no_handle = Map.empty"
  by (simp_all add: web1_no_handle_def web1_running_facts)

section \<open>Claims\<close>

text \<open>
  C10. \<open>GetServerStatus\<close> only reads: for an identity that is not in the servers map it
  returns \<open>(false, false)\<close>, for one that is there it returns \<open>true\<close> and the running flag of
  its record, and the state after the call is the state before it.
\<close>

theorem C10_GetServerStatus_pure:
  "(servers a sid = None \<longrightarrow> GetServerStatus sid a = ((False, False), a)) \<and>
   (\<forall>p. servers a sid = Some p \<longrightarrow> GetServerStatus sid a = ((True, Running (store a p)), a))"
  by (simp add: GetServerStatus_def)

theorem C10_GetServerStatus_pure_witness:
  "servers web1 ''2'' = None \<and> GetServerStatus ''2'' web1 = ((False, False), web1) \<and>
   servers web1 ''1'' = Some 0 \<and> GetServerStatus ''1'' web1 = ((True, False), web1)"
proof -
  have absent: "servers web1 ''2'' = None" and present: "servers web1 ''1'' = Some 0"
    by (simp_all add: web1_servers)
  from C10_GetServerStatus_pure [of web1 "''2''"] absent
  have "GetServerStatus ''2'' web1 = ((False, False), web1)" by blast
  moreover from C10_GetServerStatus_pure [of web1 "''1''"] present
  have "GetServerStatus ''1'' web1 = ((True, Running (store web1 0)), web1)" by blast
  ultimately show ?thesis using absent present by (simp add: web1_servers)
qed

text \<open>
  C5. \<open>StartServer\<close> fails on an unknown identity and on a server that is already running:
  it returns \<open>false\<close> and the state (servers map, records, process table, \<open>nextID\<close>) is the
  state before the call, whatever the operating system would have answered.
\<close>

theorem C5_StartServer_rejects:
  "(servers a sid = None \<longrightarrow> StartServer env sid a = (False, a)) \<and>
   (\<forall>p. servers a sid = Some p \<and> Running (store a p) \<longrightarrow> StartServer env sid a = (False, a))"
  by (simp add: StartServer_def)

theorem C5_StartServer_rejects_witness:
  "servers web1_running ''1'' = Some 0 \<and> Running (store web1_running 0) \<and>
   StartServer env0 ''1'' web1_running = (False, web1_running) \<and>
   servers web1_running ''2'' = None \<and>
   StartServer env0 ''2'' web1_running = (False, web1_running)"
proof -
  have running: "servers web1_running ''1'' = Some 0 \<and> Running (store web1_running 0)"
    and unknown: "servers web1_running ''2'' = None"
    by (simp_all add: web1_running_facts)
  from C5_StartServer_rejects [of web1_running "''1''" env0] running
  have "StartServer env0 ''1'' web1_running = (False, web1_running)" by blast
  moreover from C5_StartServer_rejects [of web1_running "''2''" env0] unknown
  have "StartServer env0 ''2'' web1_running = (False, web1_running)" by blast
  ultimately show ?thesis using running unknown by simp
qed

text \<open>
  C6. When the server exists with \<open>running = true\<close> and the process table has no handle for
  it, \<open>StopServer\<close> returns \<open>true\<close> and only clears the running flag of that record. When the
  identity is unknown or the server is not running, it returns \<open>false\<close> and leaves the state
  unchanged.
\<close>

theorem C6_StopServer:
  "(\<forall>p. servers a sid = Some p \<and> Running (store a p) \<and> processes a sid = None \<longrightarrow>
        StopServer kill_ok sid a = (True, a\<lparr>store := (store a)(p := (store a p)\<lparr>Running := False\<rparr>)\<rparr>)) \<and>
   (servers a sid = None \<or> (\<exists>p. servers a sid = Some p \<and> \<not> Running (store a p)) \<longrightarrow>
        StopServer kill_ok sid a = (False, a))"
  by (auto simp: StopServer_def set_Running_def)

theorem C6_StopServer_witness:
  "servers web1_no_handle ''1'' = Some 0 \<and> Running (store web1_no_handle 0) \<and>
   processes web1_no_handle ''1'' = None \<and>
   fst (StopServer True ''1'' web1_no_handle) \<and>
   \<not> Running (store (snd (StopServer True ''1'' web1_no_handle)) 0) \<and>
   StopServer True ''2'' web1_no_handle = (False, web1_no_handle) \<and>
   servers web1 ''1'' = Some 0 \<and> \<not> Running (store web1 0) \<and>
   StopServer True ''1'' web1 = (False, web1)"
proof -
  have lost: "servers web1_no_handle ''1'' = Some 0 \<and> Running (store web1_no_handle 0) \<and>
      processes web1_no_handle ''1'' = None"
    and unknown: "servers web1_no_handle ''2'' = None"
    by (simp_all add: web1_no_handle_facts)
  have stopped: "servers web1 ''1'' = Some 0 \<and> \<not> Running (store web1 0)"
    by (simp add: web1_servers)
  from C6_StopServer [of web1_no_handle "''1''" True] lost
  have "StopServer True ''1'' web1_no_handle =
      (True, web1_no_handle\<lparr>store := (store web1_no_handle)(0 := (store web1_no_handle 0)\<lparr>Running := False\<rparr>)\<rparr>)"
    by blast
  moreover from C6_StopServer [of web1_no_handle "''2''" True] unknown
  have "StopServer True ''2'' web1_no_handle = (False, web1_no_handle)" by blast
  moreover from C6_StopServer [of web1 "''1''" True] stopped
  have "StopServer True ''1'' web1 = (False, web1)" by blast
  ultimately show ?thesis using lost stopped by simp
qed

section \<open>Claims on the provisioner\<close>

lemma Itoa_8080: "Itoa 8080 = ''8080''"
  by (simp add: Itoa_eval)

lemma Atoi_8080: "Atoi ''8080'' = Some 8080"
  by (simp add: Atoi_eval)

lemma Replace1_prefix: "Replace1 ''2a0e:b107:384:ee25::/64'' ''/64'' [] = ''2a0e:b107:384:ee25::''"
  by (simp add: HasPrefix_def)

lemma createLinux_os_ok: "createLinuxVLANInterface os_ok v = Inr (v\<lparr>Active := True\<rparr>)"
  by (simp add: createLinuxVLANInterface_def getMainInterface_def os_ok_def)

lemma createLinux_os_fail: "createLinuxVLANInterface os_fail v = Inl LinkAddFailed"
  by (simp add: createLinuxVLANInterface_def getMainInterface_def os_fail_def)

lemma Create_8080:
  "CreateVLANInterface os_ok ''8080'' vm0 =
     (Inr (Some \<lparr>IfName = ''vlan8080'', VLANID = 8080,
                 IfIPv6Address = ''2a0e:b107:384:ee25::::8080'', IfPort = ''8080'', Active = True\<rparr>),
      \<lparr>ipv6Prefix = ''2a0e:b107:384:ee25::/64'',
       interfaces = [''vlan8080'' \<mapsto> \<lparr>IfName = ''vlan8080'', VLANID = 8080,
                 IfIPv6Address = ''2a0e:b107:384:ee25::::8080'', IfPort = ''8080'', Active = True\<rparr>],
       portToVLAN = [''8080'' \<mapsto> ''vlan8080'']\<rparr>)"
  by (simp add: CreateVLANInterface_def vm0_def NewVLANManager_def Atoi_8080 Itoa_8080
      HasPrefix_def createLinux_os_ok Let_def)

lemma vm8080_facts:
  "portToVLAN vm8080 ''8080'' = Some ''vlan8080''"
  "interfaces vm8080 ''vlan8080'' = Some \<lparr>IfName = ''vlan8080'', VLANID = 8080,
      IfIPv6Address = ''2a0e:b107:384:ee25::::8080'', IfPort = ''8080'', Active = True\<rparr>"
  by (simp_all add: vm8080_def Create_8080)

text \<open>
  C3. The derivation of the identity of a port, run on the configured prefix
  \<open>2a0e:b107:384:ee25::/64\<close> and port \<open>8080\<close> with every command succeeding: the interface
  name is \<open>vlan8080\<close> and the tag is 8080, but the address keeps the \<open>::\<close> that ends the
  prefix and gets a second \<open>::\<close> before the port, so it is not \<open>2a0e:b107:384:ee25::8080\<close>.
\<close>

theorem C3_address_derivation:
  "fst (CreateVLANInterface os_ok ''8080'' (NewVLANManager ''2a0e:b107:384:ee25::/64'')) =
     Inr (Some \<lparr>IfName = ''vlan8080'', VLANID = 8080,
                IfIPv6Address = ''2a0e:b107:384:ee25::::8080'', IfPort = ''8080'', Active = True\<rparr>) \<and>
   ''2a0e:b107:384:ee25::::8080'' \<noteq> ''2a0e:b107:384:ee25::8080''"
  using Create_8080 by (simp add: vm0_def)

text \<open>
  C2. For a port that has a registered identity, \<open>CreateVLANInterface\<close> returns that
  identity without an error and leaves the manager unchanged, whatever the operating
  system answers; and a call that returned an identity is followed, for the same port, by
  a call that returns the same identity and changes nothing.
\<close>

theorem C2_Allocate_idempotent:
  "(\<forall>n v. portToVLAN vm port = Some n \<and> interfaces vm n = Some v \<longrightarrow>
        CreateVLANInterface sys port vm = (Inr (Some v), vm)) \<and>
   (\<forall>r vm'. CreateVLANInterface sys port vm = (Inr r, vm') \<longrightarrow>
        CreateVLANInterface sys' port vm' = (Inr r, vm'))"
  by (auto simp: CreateVLANInterface_def Let_def split: option.splits sum.splits)

theorem C2_Allocate_idempotent_witness:
  "portToVLAN vm8080 ''8080'' = Some ''vlan8080'' \<and>
   CreateVLANInterface os_ok ''8080'' vm0 = (Inr (GetVLANForPort ''8080'' vm8080), vm8080) \<and>
   CreateVLANInterface os_fail ''8080'' vm8080 = (Inr (GetVLANForPort ''8080'' vm8080), vm8080)"
proof -
  let ?v = "\<lparr>IfName = ''vlan8080'', VLANID = 8080,
      IfIPv6Address = ''2a0e:b107:384:ee25::::8080'', IfPort = ''8080'', Active = True\<rparr>"
  have registered: "portToVLAN vm8080 ''8080'' = Some ''vlan8080'' \<and>
      interfaces vm8080 ''vlan8080'' = Some ?v"
    by (simp add: vm8080_facts)
  have first: "CreateVLANInterface os_ok ''8080'' vm0 = (Inr (Some ?v), vm8080)"
    by (simp add: vm8080_def Create_8080)
  from C2_Allocate_idempotent [of vm8080 "''8080''" os_fail os_fail] registered
  have again: "CreateVLANInterface os_fail ''8080'' vm8080 = (Inr (Some ?v), vm8080)"
    by blast
  from C2_Allocate_idempotent [of vm0 "''8080''" os_ok os_fail] first
  have "CreateVLANInterface os_fail ''8080'' vm8080 = (Inr (Some ?v), vm8080)"
    by blast
  then show ?thesis using registered first by (simp add: GetVLANForPort_def)
qed

text \<open>
  C9. When the port is not registered and a step of \<open>createLinuxVLANInterface\<close> fails,
  \<open>CreateVLANInterface\<close> returns the error and the manager is unchanged; every error return
  of \<open>CreateVLANInterface\<close> leaves the manager unchanged and the port unregistered. When
  \<open>ip link delete\<close> fails, \<open>RemoveVLANInterface\<close> returns the error and the manager, with
  the identity and the port entry, is unchanged.
\<close>

theorem C9_bookkeeping_atomic:
  "(\<forall>n e. portToVLAN vm port = None \<and> Atoi port = Some n \<and>
          createLinuxVLANInterface sys
            \<lparr>IfName = ''vlan'' @ Itoa n, VLANID = n,
             IfIPv6Address = Replace1 (ipv6Prefix vm) ''/64'' [] @ ''::'' @ port,
             IfPort = port, Active = False\<rparr> = Inl e \<longrightarrow>
          CreateVLANInterface sys port vm = (Inl (FailedToCreate e), vm)) \<and>
   (\<forall>e. fst (CreateVLANInterface sys port vm) = Inl e \<longrightarrow>
          snd (CreateVLANInterface sys port vm) = vm \<and> portToVLAN vm port = None) \<and>
   (\<forall>n v. portToVLAN vm port = Some n \<and> interfaces vm n = Some v \<and>
          \<not> cmd_Run sys [''sudo'', ''ip'', ''link'', ''delete'', IfName v] \<longrightarrow>
          RemoveVLANInterface sys port vm = (Return (Some FailedToRemove), vm))"
  by (auto simp: CreateVLANInterface_def RemoveVLANInterface_def Let_def
      split: option.splits sum.splits)

text \<open>The steps of \<open>createLinuxVLANInterface\<close>: it fails exactly when one of them does.\<close>

lemma createLinux_fails_iff:
  "(\<exists>e. createLinuxVLANInterface sys v = Inl e) \<longleftrightarrow>
     (net_Interfaces sys = None \<or>
      (\<exists>ifaces. net_Interfaces sys = Some ifaces \<and>
        (\<not> cmd_Run sys [''sudo'', ''ip'', ''link'', ''add'', ''link'', first_main_interface ifaces,
                         ''name'', IfName v, ''type'', ''vlan'', ''id'', Itoa (VLANID v)] \<or>
         \<not> cmd_Run sys [''sudo'', ''ip'', ''link'', ''set'', ''dev'', IfName v, ''up''] \<or>
         \<not> cmd_Run sys [''sudo'', ''ip'', ''-6'', ''addr'', ''add'', IfIPv6Address v @ ''/64'',
                         ''dev'', IfName v])))"
  by (auto simp: createLinuxVLANInterface_def getMainInterface_def split: option.splits)

theorem C9_bookkeeping_atomic_witness:
  "portToVLAN vm0 ''8080'' = None \<and> Atoi ''8080'' = Some 8080 \<and>
   CreateVLANInterface os_fail ''8080'' vm0 = (Inl (FailedToCreate LinkAddFailed), vm0) \<and>
   portToVLAN vm8080 ''8080'' = Some ''vlan8080'' \<and>
   \<not> cmd_Run os_fail [''sudo'', ''ip'', ''link'', ''delete'', ''vlan8080''] \<and>
   RemoveVLANInterface os_fail ''8080'' vm8080 = (Return (Some FailedToRemove), vm8080)"
proof -
  let ?v = "\<lparr>IfName = ''vlan8080'', VLANID = 8080,
      IfIPv6Address = ''2a0e:b107:384:ee25::::8080'', IfPort = ''8080'', Active = True\<rparr>"
  have fresh_port: "portToVLAN vm0 ''8080'' = None"
    by (simp add: vm0_def NewVLANManager_def)
  have steps_fail: "createLinuxVLANInterface os_fail
      \<lparr>IfName = ''vlan'' @ Itoa 8080, VLANID = 8080,
       IfIPv6Address = Replace1 (ipv6Prefix vm0) ''/64'' [] @ ''::'' @ ''8080'',
       IfPort = ''8080'', Active = False\<rparr> = Inl LinkAddFailed"
    by (rule createLinux_os_fail)
  have registered: "portToVLAN vm8080 ''8080'' = Some ''vlan8080'' \<and>
      interfaces vm8080 ''vlan8080'' = Some ?v"
    by (simp add: vm8080_facts)
  have delete_fails: "\<not> cmd_Run os_fail [''sudo'', ''ip'', ''link'', ''delete'', IfName ?v]"
    by (simp add: os_fail_def)
  from C9_bookkeeping_atomic [of vm0 "''8080''" os_fail] fresh_port Atoi_8080 steps_fail
  have "CreateVLANInterface os_fail ''8080'' vm0 = (Inl (FailedToCreate LinkAddFailed), vm0)"
    by blast
  moreover from C9_bookkeeping_atomic [of vm8080 "''8080''" os_fail] registered delete_fails
  have "RemoveVLANInterface os_fail ''8080'' vm8080 = (Return (Some FailedToRemove), vm8080)"
    by blast
  ultimately show ?thesis using fresh_port Atoi_8080 registered delete_fails by simp
qed

section \<open>Claims on the supervisor's records\<close>

lemma set_map_filter: "set (List.map_filter f ks) = {y. \<exists>k \<in> set ks. f k = Some y}"
  by (induction ks) (auto split: option.splits)

lemma length_map_filter: "\<forall>k \<in> set ks. f k \<noteq> None \<Longrightarrow> length (List.map_filter f ks) = length ks"
  by (induction ks) (auto split: option.splits)

lemma length_GetServers:
  "set ks = dom (servers a) \<Longrightarrow> distinct ks \<Longrightarrow> length (fst (GetServers ks a)) = card (dom (servers a))"
proof -
  assume keys: "set ks = dom (servers a)" and no_dup: "distinct ks"
  from keys have "\<forall>k \<in> set ks. servers a k \<noteq> None"
    by auto
  then have "length (fst (GetServers ks a)) = length ks"
    by (simp add: GetServers_def length_map_filter)
  also have "\<dots> = card (set ks)"
    using no_dup by (simp add: distinct_card)
  finally show ?thesis
    using keys by simp
qed

lemma set_GetServers: "set ks = dom (servers a) \<Longrightarrow> set (fst (GetServers ks a)) = ran (servers a)"
  by (auto simp: GetServers_def set_map_filter ran_def dom_def)

lemma StopServer_frame: "servers a sid \<noteq> Some q \<Longrightarrow> store (snd (StopServer kill_ok sid a)) q = store a q"
  by (auto simp: StopServer_def set_Running_def split: option.splits)

lemma StopServer_servers: "servers (snd (StopServer kill_ok sid a)) = servers a"
  by (auto simp: StopServer_def set_Running_def split: option.splits)

lemma StartServer_frame: "servers a sid \<noteq> Some q \<Longrightarrow> store (snd (StartServer env sid a)) q = store a q"
  by (auto simp: StartServer_def set_Running_def Let_def split: option.splits)

lemma UpdateServer_frame:
  "servers a sid \<noteq> Some q \<Longrightarrow> store (snd (UpdateServer kill_ok sid name port directory a)) q = store a q"
  by (auto simp: UpdateServer_def Let_def StopServer_frame split: option.splits)

lemma DeleteServer_frame: "servers a sid \<noteq> Some q \<Longrightarrow> store (snd (DeleteServer kill_ok sid a)) q = store a q"
  by (auto simp: DeleteServer_def Let_def StopServer_frame split: option.splits)

lemma UpdateServer_written:
  "servers a sid = Some p \<Longrightarrow>
     Name (store (snd (UpdateServer kill_ok sid name port directory a)) p) = name \<and>
     Port (store (snd (UpdateServer kill_ok sid name port directory a)) p) = port \<and>
     Directory (store (snd (UpdateServer kill_ok sid name port directory a)) p) = directory"
  by (simp add: UpdateServer_def Let_def)

text \<open>
  C1, as stated: the records read through the collection \<open>GetServers\<close> returned are the same
  before and after a later \<open>UpdateServer\<close>. It fails on the state with the one server
  \<open>web1\<close>: the collection holds the pointer of the map, and the update writes through it.
\<close>

theorem C1_snapshot_counterexample:
  "map (store (snd (UpdateServer True ''1'' ''renamed'' ''9091'' ''/srv/new'' web1)))
       (fst (GetServers [''1''] web1)) \<noteq>
   map (store web1) (fst (GetServers [''1''] web1))"
  by (simp add: GetServers_def web1_servers UpdateServer_def web1_eq)

text \<open>
  C1, amended. \<open>GetServers\<close> changes nothing and returns the pointers of the servers map,
  one for each identity, not copies. A later \<open>UpdateServer\<close>, \<open>StartServer\<close>, \<open>StopServer\<close> or \<open>DeleteServer\<close> of a
  server leaves every record of the collection other than that server's unchanged; the
  record of that server is the one in the collection, and after \<open>UpdateServer\<close> it shows the
  new name, port and directory.
\<close>

theorem C1_GetServers_shares_records:
  assumes "set ks = dom (servers a)" and "distinct ks"
  shows "snd (GetServers ks a) = a \<and>
    set (fst (GetServers ks a)) = ran (servers a) \<and>
    length (fst (GetServers ks a)) = card (dom (servers a)) \<and>
    (\<forall>q. servers a sid \<noteq> Some q \<longrightarrow>
       store (snd (UpdateServer kill_ok sid name port directory a)) q = store a q \<and>
       store (snd (StartServer env sid a)) q = store a q \<and>
       store (snd (StopServer kill_ok sid a)) q = store a q \<and>
       store (snd (DeleteServer kill_ok sid a)) q = store a q) \<and>
    (\<forall>p. servers a sid = Some p \<longrightarrow>
       p \<in> set (fst (GetServers ks a)) \<and>
       Name (store (snd (UpdateServer kill_ok sid name port directory a)) p) = name \<and>
       Port (store (snd (UpdateServer kill_ok sid name port directory a)) p) = port \<and>
       Directory (store (snd (UpdateServer kill_ok sid name port directory a)) p) = directory)"
proof -
  have unchanged: "snd (GetServers ks a) = a"
    by (simp add: GetServers_def)
  have pointers: "set (fst (GetServers ks a)) = ran (servers a)"
    using assms(1) by (rule set_GetServers)
  have one_each: "length (fst (GetServers ks a)) = card (dom (servers a))"
    using assms by (rule length_GetServers)
  have frame: "store (snd (UpdateServer kill_ok sid name port directory a)) q = store a q \<and>
       store (snd (StartServer env sid a)) q = store a q \<and>
       store (snd (StopServer kill_ok sid a)) q = store a q \<and>
       store (snd (DeleteServer kill_ok sid a)) q = store a q"
    if "servers a sid \<noteq> Some q" for q
    using that by (simp add: UpdateServer_frame StartServer_frame StopServer_frame DeleteServer_frame)
  have shared: "p \<in> set (fst (GetServers ks a))" if "servers a sid = Some p" for p
    using that pointers by (auto simp: ran_def)
  show ?thesis
    using unchanged pointers one_each frame shared UpdateServer_written [of a sid] by blast
qed

theorem C1_GetServers_shares_records_witness:
  "set [''1''] = dom (servers web1) \<and> distinct [''1''] \<and>
   fst (GetServers [''1''] web1) = [0] \<and>
   Name (store (snd (UpdateServer True ''1'' ''renamed'' ''9091'' ''/srv/new'' web1)) 0) = ''renamed'' \<and>
   store (snd (UpdateServer True ''1'' ''renamed'' ''9091'' ''/srv/new'' web1)) 1 = store web1 1"
proof -
  have keys: "set [''1''] = dom (servers web1)" and no_dup: "distinct [''1'']"
    by (simp_all add: web1_servers)
  have here: "servers web1 ''1'' = Some 0" and other: "servers web1 ''1'' \<noteq> Some 1"
    by (simp_all add: web1_servers)
  note C1 = C1_GetServers_shares_records [OF keys no_dup, of "''1''" True "''renamed''" "''9091''" "''/srv/new''" env0]
  from C1 here have "Name (store (snd (UpdateServer True ''1'' ''renamed'' ''9091'' ''/srv/new'' web1)) 0) = ''renamed''"
    by blast
  moreover from C1 other
  have "store (snd (UpdateServer True ''1'' ''renamed'' ''9091'' ''/srv/new'' web1)) 1 = store web1 1"
    by blast
  moreover have "fst (GetServers [''1''] web1) = [0]"
    by (simp add: GetServers_def web1_servers)
  ultimately show ?thesis using keys no_dup by simp
qed

section \<open>Claims on the create handler\<close>

lemma Itoa_0: "Itoa 0 = ''0''"
  by (simp add: Itoa_eval)

lemma Atoi_0: "Atoi ''0'' = Some 0"
  by (simp add: Atoi_eval)

lemma Atoi_9090: "Atoi ''9090'' = Some 9090"
  by (simp add: Atoi_eval)

lemma Itoa_9090: "Itoa 9090 = ''9090''"
  by (simp add: Itoa_eval)

lemma Atoi_http: "Atoi ''http'' = None"
  by (simp add: Atoi_eval)

lemma CreateVLANInterface_error_unchanged:
  "CreateVLANInterface sys port vm = (Inl e, vm') \<Longrightarrow> vm' = vm"
  by (auto simp: CreateVLANInterface_def Let_def split: option.splits sum.splits)

lemma CreateServer_result:
  "CreateServer name port directory a =
     (Itoa (nextID a),
      a\<lparr>nextID := nextID a + 1,
        store := (store a)(fresh a := \<lparr>ID = Itoa (nextID a), Name = name, Port = port,
           Directory = directory, Running = False, VLANInterface = [], IPv6Address = []\<rparr>),
        fresh := Suc (fresh a),
        servers := (servers a)(Itoa (nextID a) \<mapsto> fresh a)\<rparr>)"
  by (simp add: CreateServer_def new_Server_def Let_def)

lemma handleCreate_port_0:
  "fst (handleCreateServerWithVLAN os_ok (Some (''web'', ''0'', ''/srv'')) (NewApp, vm0)) =
     OK_JSON ''1'' ''vlan0'' ''2a0e:b107:384:ee25::::0''"
  by (simp add: handleCreateServerWithVLAN_def Atoi_0 Itoa_0 CreateVLANInterface_def vm0_def
      NewVLANManager_def HasPrefix_def createLinux_os_ok Let_def CreateServer_result NewApp_def Itoa_1)

lemma handleCreate_os_fail:
  "handleCreateServerWithVLAN os_fail (Some (''web'', ''9090'', ''/srv'')) (NewApp, vm0) =
     (InternalServerError (FailedToCreate LinkAddFailed), NewApp, vm0)"
  by (simp add: handleCreateServerWithVLAN_def Atoi_9090 CreateVLANInterface_def vm0_def
      NewVLANManager_def createLinux_os_fail Let_def)

text \<open>
  C4, as stated, fails twice. The port \<open>0\<close> is not a positive integer, yet the request is
  answered with a new identity; and a request with the positive port \<open>9090\<close> that passes the
  validation stores no record when the interface cannot be created.
\<close>

theorem C4_validation_counterexample:
  "Atoi ''0'' = Some 0 \<and> \<not> 0 < sint (0 :: go_int) \<and>
   fst (handleCreateServerWithVLAN os_ok (Some (''web'', ''0'', ''/srv'')) (NewApp, vm0)) =
     OK_JSON ''1'' ''vlan0'' ''2a0e:b107:384:ee25::::0'' \<and>
   Atoi ''9090'' = Some 9090 \<and> 0 < sint (9090 :: go_int) \<and>
   handleCreateServerWithVLAN os_fail (Some (''web'', ''9090'', ''/srv'')) (NewApp, vm0) =
     (InternalServerError (FailedToCreate LinkAddFailed), NewApp, vm0)"
  by (simp add: Atoi_0 Atoi_9090 handleCreate_port_0 handleCreate_os_fail)

text \<open>
  C4, amended. A request whose body does not decode, or with an empty name, port or
  directory, or with a port that \<open>strconv.Atoi\<close> does not read as an integer (of any sign),
  is rejected with status 400 and both states are unchanged. A request that passes these
  checks and for which \<open>CreateVLANInterface\<close> returns an error gets status 500 and both
  states are unchanged. A request that passes them and for which \<open>CreateVLANInterface\<close>
  returns an identity is answered with the identity \<open>Itoa nextID\<close>, and a new record with the
  given name, port and directory, \<open>running = false\<close> and the interface and address of the
  identity is stored under it.
\<close>

theorem C4_create_validation:
  "((body = None \<or>
     (\<exists>name port directory. body = Some (name, port, directory) \<and>
        (name = [] \<or> port = [] \<or> directory = [] \<or> Atoi port = None))) \<longrightarrow>
      (\<exists>b. handleCreateServerWithVLAN sys body (a, vm) = (BadRequest b, a, vm))) \<and>
   (\<forall>name port directory n.
      body = Some (name, port, directory) \<and> name \<noteq> [] \<and> port \<noteq> [] \<and> directory \<noteq> [] \<and>
      Atoi port = Some n \<longrightarrow>
        (\<forall>e vm'. CreateVLANInterface sys port vm = (Inl e, vm') \<longrightarrow>
           handleCreateServerWithVLAN sys body (a, vm) = (InternalServerError e, a, vm)) \<and>
        (\<forall>v vm'. CreateVLANInterface sys port vm = (Inr (Some v), vm') \<longrightarrow>
           (\<exists>a'. handleCreateServerWithVLAN sys body (a, vm) =
                   (OK_JSON (Itoa (nextID a)) (IfName v) (IfIPv6Address v), a', vm') \<and>
                 servers a' (Itoa (nextID a)) = Some (fresh a) \<and>
                 store a' (fresh a) =
                   \<lparr>ID = Itoa (nextID a), Name = name, Port = port, Directory = directory,
                    Running = False, VLANInterface = IfName v,
                    IPv6Address = IfIPv6Address v\<rparr>)))"
proof (intro conjI allI impI)
  assume "body = None \<or>
     (\<exists>name port directory. body = Some (name, port, directory) \<and>
        (name = [] \<or> port = [] \<or> directory = [] \<or> Atoi port = None))"
  then show "\<exists>b. handleCreateServerWithVLAN sys body (a, vm) = (BadRequest b, a, vm)"
    by (auto simp: handleCreateServerWithVLAN_def)
next
  fix name port directory n e vm'
  assume valid: "body = Some (name, port, directory) \<and> name \<noteq> [] \<and> port \<noteq> [] \<and>
      directory \<noteq> [] \<and> Atoi port = Some n"
    and failed: "CreateVLANInterface sys port vm = (Inl e, vm')"
  from failed have "vm' = vm"
    by (rule CreateVLANInterface_error_unchanged)
  with valid failed
  show "handleCreateServerWithVLAN sys body (a, vm) = (InternalServerError e, a, vm)"
    by (simp add: handleCreateServerWithVLAN_def)
next
  fix name port directory n v vm'
  assume valid: "body = Some (name, port, directory) \<and> name \<noteq> [] \<and> port \<noteq> [] \<and>
      directory \<noteq> [] \<and> Atoi port = Some n"
    and created: "CreateVLANInterface sys port vm = (Inr (Some v), vm')"
  from valid created
  show "\<exists>a'. handleCreateServerWithVLAN sys body (a, vm) =
           (OK_JSON (Itoa (nextID a)) (IfName v) (IfIPv6Address v), a', vm') \<and>
         servers a' (Itoa (nextID a)) = Some (fresh a) \<and>
         store a' (fresh a) =
           \<lparr>ID = Itoa (nextID a), Name = name, Port = port, Directory = directory,
            Running = False, VLANInterface = IfName v, IPv6Address = IfIPv6Address v\<rparr>"
    by (simp add: handleCreateServerWithVLAN_def CreateServer_result)
qed

theorem C4_create_validation_witness:
  "Atoi ''http'' = None \<and>
   handleCreateServerWithVLAN os_ok (Some (''web'', ''http'', ''/srv'')) (NewApp, vm0) =
     (BadRequest PortMustBeANumber, NewApp, vm0) \<and>
   Atoi ''8080'' = Some 8080 \<and>
   handleCreateServerWithVLAN os_fail (Some (''web'', ''8080'', ''/srv'')) (NewApp, vm0) =
     (InternalServerError (FailedToCreate LinkAddFailed), NewApp, vm0) \<and>
   fst (handleCreateServerWithVLAN os_ok (Some (''web'', ''8080'', ''/srv'')) (NewApp, vm0)) =
     OK_JSON ''1'' ''vlan8080'' ''2a0e:b107:384:ee25::::8080'' \<and>
   servers (fst (snd (handleCreateServerWithVLAN os_ok (Some (''web'', ''8080'', ''/srv''))
     (NewApp, vm0)))) ''1'' = Some 0 \<and>
   \<not> Running (store (fst (snd (handleCreateServerWithVLAN os_ok (Some (''web'', ''8080'', ''/srv''))
     (NewApp, vm0)))) 0)"
proof -
  let ?v = "\<lparr>IfName = ''vlan8080'', VLANID = 8080,
      IfIPv6Address = ''2a0e:b107:384:ee25::::8080'', IfPort = ''8080'', Active = True\<rparr>"
  let ?bad = "Some (''web'', ''http'', ''/srv'')"
  let ?good = "Some (''web'', ''8080'', ''/srv'')"
  have not_a_number: "?bad = None \<or>
     (\<exists>name port directory. ?bad = Some (name, port, directory) \<and>
        (name = [] \<or> port = [] \<or> directory = [] \<or> Atoi port = None))"
    using Atoi_http by simp
  have valid: "?good = Some (''web'', ''8080'', ''/srv'') \<and>
      ''web'' \<noteq> [] \<and> ''8080'' \<noteq> [] \<and> ''/srv'' \<noteq> [] \<and> Atoi ''8080'' = Some 8080"
    using Atoi_8080 by simp
  have failed: "CreateVLANInterface os_fail ''8080'' vm0 = (Inl (FailedToCreate LinkAddFailed), vm0)"
    by (simp add: CreateVLANInterface_def vm0_def NewVLANManager_def Atoi_8080
        createLinux_os_fail Let_def)
  have created: "CreateVLANInterface os_ok ''8080'' vm0 = (Inr (Some ?v), vm8080)"
    by (simp add: vm8080_def Create_8080)
  have "\<exists>b. handleCreateServerWithVLAN os_ok ?bad (NewApp, vm0) = (BadRequest b, NewApp, vm0)"
    by (rule C4_create_validation [of ?bad os_ok NewApp vm0, THEN conjunct1, THEN mp, OF not_a_number])
  then have rejected: "handleCreateServerWithVLAN os_ok ?bad (NewApp, vm0) =
      (BadRequest PortMustBeANumber, NewApp, vm0)"
    by (simp add: handleCreateServerWithVLAN_def Atoi_http)
  note passes_fail = C4_create_validation [of ?good os_fail NewApp vm0, THEN conjunct2,
      THEN spec, THEN spec, THEN spec, THEN spec, THEN mp, OF valid]
  have error: "handleCreateServerWithVLAN os_fail ?good (NewApp, vm0) =
      (InternalServerError (FailedToCreate LinkAddFailed), NewApp, vm0)"
    by (rule passes_fail [THEN conjunct1, THEN spec, THEN spec, THEN mp, OF failed])
  note passes_ok = C4_create_validation [of ?good os_ok NewApp vm0, THEN conjunct2,
      THEN spec, THEN spec, THEN spec, THEN spec, THEN mp, OF valid]
  have "\<exists>a'. handleCreateServerWithVLAN os_ok ?good (NewApp, vm0) =
           (OK_JSON (Itoa (nextID NewApp)) (IfName ?v) (IfIPv6Address ?v), a', vm8080) \<and>
         servers a' (Itoa (nextID NewApp)) = Some (fresh NewApp) \<and>
         store a' (fresh NewApp) =
           \<lparr>ID = Itoa (nextID NewApp), Name = ''web'', Port = ''8080'', Directory = ''/srv'',
            Running = False, VLANInterface = IfName ?v, IPv6Address = IfIPv6Address ?v\<rparr>"
    by (rule passes_ok [THEN conjunct2, THEN spec, THEN spec, THEN mp, OF created])
  then obtain a' where
      ok: "handleCreateServerWithVLAN os_ok ?good (NewApp, vm0) =
           (OK_JSON (Itoa (nextID NewApp)) (IfName ?v) (IfIPv6Address ?v), a', vm8080)"
      and entry: "servers a' (Itoa (nextID NewApp)) = Some (fresh NewApp)"
      and rec_eq: "store a' (fresh NewApp) =
           \<lparr>ID = Itoa (nextID NewApp), Name = ''web'', Port = ''8080'', Directory = ''/srv'',
            Running = False, VLANInterface = IfName ?v, IPv6Address = IfIPv6Address ?v\<rparr>"
    by (elim exE conjE)
  have first: "Itoa (nextID NewApp) = ''1''" and zero: "fresh NewApp = 0"
    by (simp_all add: NewApp_def Itoa_1)
  have answer: "fst (handleCreateServerWithVLAN os_ok ?good (NewApp, vm0)) =
      OK_JSON ''1'' ''vlan8080'' ''2a0e:b107:384:ee25::::8080''"
    by (simp add: ok first)
  have state: "fst (snd (handleCreateServerWithVLAN os_ok ?good (NewApp, vm0))) = a'"
    by (simp add: ok)
  have stored: "servers (fst (snd (handleCreateServerWithVLAN os_ok ?good (NewApp, vm0)))) ''1'' = Some 0"
    using entry by (simp add: state first zero)
  have stopped: "\<not> Running (store (fst (snd (handleCreateServerWithVLAN os_ok ?good (NewApp, vm0)))) 0)"
    using rec_eq by (simp add: state zero)
  from Atoi_http rejected Atoi_8080 error answer stored stopped
  show ?thesis
    by (intro conjI)
qed

section \<open>Claims on the persisted configuration\<close>

lemma unmarshal_Servers_spec:
  "unmarshal_Servers es m a = (m', a') \<Longrightarrow>
     fresh a \<le> fresh a' \<and> servers a' = servers a \<and> nextID a' = nextID a \<and>
     processes a' = processes a \<and>
     (\<forall>q < fresh a. store a' q = store a q) \<and>
     (\<forall>k. case map_of (rev es) k of
            Some v \<Rightarrow> (\<exists>p. m' k = Some p \<and> fresh a \<le> p \<and> store a' p = v)
          | None \<Rightarrow> m' k = m k)"
proof (induction es arbitrary: m a)
  case Nil
  then show ?case by simp
next
  case (Cons e es)
  obtain k0 v0 where e: "e = (k0, v0)"
    by (cases e)
  let ?a1 = "a\<lparr>store := (store a)(fresh a := v0), fresh := Suc (fresh a)\<rparr>"
  from Cons.prems e have rest: "unmarshal_Servers es (m(k0 \<mapsto> fresh a)) ?a1 = (m', a')"
    by (simp add: new_Server_def)
  note IH = Cons.IH [OF rest]
  from IH have grows: "fresh a \<le> fresh a'" and same: "servers a' = servers a"
      "nextID a' = nextID a" "processes a' = processes a"
    by simp_all
  from IH have below: "store a' q = store ?a1 q" if "q < Suc (fresh a)" for q
    using that by simp
  have old: "\<forall>q < fresh a. store a' q = store a q"
    using below by simp
  have new: "store a' (fresh a) = v0"
    using below [of "fresh a"] by simp
  have lookup: "case map_of (rev (e # es)) k of
            Some v \<Rightarrow> (\<exists>p. m' k = Some p \<and> fresh a \<le> p \<and> store a' p = v)
          | None \<Rightarrow> m' k = m k" for k
  proof (cases "map_of (rev es) k")
    case None
    with IH have "m' k = (m(k0 \<mapsto> fresh a)) k"
      by (auto split: option.splits dest: spec [of _ k])
    with None new show ?thesis
      by (auto simp: e map_add_def)
  next
    case (Some v)
    with IH obtain p where "m' k = Some p" "Suc (fresh a) \<le> p" "store a' p = v"
      by (auto split: option.splits dest!: spec [of _ k])
    with Some show ?thesis
      by (simp add: e map_add_def)
  qed
  from grows same old lookup show ?case
    by blast
qed

lemma clear_Running_spec:
  "servers (clear_Running ks a) = servers a \<and> nextID (clear_Running ks a) = nextID a \<and>
   processes (clear_Running ks a) = processes a \<and> fresh (clear_Running ks a) = fresh a \<and>
   (\<forall>q. store (clear_Running ks a) q =
      (if \<exists>k \<in> set ks. servers a k = Some q then (store a q)\<lparr>Running := False\<rparr> else store a q))"
proof (induction ks arbitrary: a)
  case Nil
  then show ?case by simp
next
  case (Cons k ks)
  show ?case
  proof (cases "servers a k")
    case None
    with Cons.IH [of a] show ?thesis by auto
  next
    case (Some p)
    with Cons.IH [of "set_Running p False a"] show ?thesis
      by (auto simp: set_Running_def)
  qed
qed

lemma map_of_rev_key: "map_of (rev es) k = Some v \<Longrightarrow> k \<in> set (map fst es)"
  by (metis map_of_eq_None_iff option.distinct(1) set_map set_rev)

text \<open>
  C7. \<open>loadConfig\<close> of a decoded snapshot sets \<open>nextID\<close> to the snapshot's value and the
  servers map to the snapshot's: under every identity the record of the snapshot with the
  running flag set to false, and no other identity. It leaves the process table as it is,
  and at startup, after \<open>NewApp\<close>, that table is empty.
\<close>

theorem C7_loadConfig_restores:
  "nextID (loadConfig (Config config) a) = NextID config \<and>
   (\<forall>sid. map_option (store (loadConfig (Config config) a))
                      (servers (loadConfig (Config config) a) sid) =
          map_option (\<lambda>server. server\<lparr>Running := False\<rparr>) (snapshot_lookup config sid)) \<and>
   processes (loadConfig (Config config) a) = processes a \<and>
   processes (startup (Config config) NewApp) = Map.empty"
proof -
  obtain m a1 where decoded: "unmarshal_Servers (Servers config) Map.empty a = (m, a1)"
    by (cases "unmarshal_Servers (Servers config) Map.empty a")
  let ?a2 = "a1\<lparr>servers := m, nextID := NextID config\<rparr>"
  let ?ks = "remdups (map fst (Servers config))"
  have loaded: "loadConfig (Config config) a = clear_Running ?ks ?a2"
    by (simp add: loadConfig_def decoded)
  note U = unmarshal_Servers_spec [OF decoded]
  note C = clear_Running_spec [of ?ks ?a2]
  have next_id: "nextID (loadConfig (Config config) a) = NextID config"
    using C by (simp add: loaded)
  have table: "processes (loadConfig (Config config) a) = processes a"
    using C U by (simp add: loaded)
  have records: "map_option (store (loadConfig (Config config) a))
                      (servers (loadConfig (Config config) a) sid) =
          map_option (\<lambda>server. server\<lparr>Running := False\<rparr>) (snapshot_lookup config sid)" for sid
  proof (cases "map_of (rev (Servers config)) sid")
    case None
    with U have "m sid = None"
      by (auto split: option.splits dest!: spec [of _ sid])
    with None C show ?thesis
      by (simp add: loaded snapshot_lookup_def)
  next
    case (Some v)
    with U obtain p where p: "m sid = Some p" "store a1 p = v"
      by (auto split: option.splits dest!: spec [of _ sid])
    from Some have "sid \<in> set ?ks"
      by (simp add: map_of_rev_key del: set_map)
    with p have "\<exists>k \<in> set ?ks. servers ?a2 k = Some p"
      by auto
    with C have "store (clear_Running ?ks ?a2) p = (store ?a2 p)\<lparr>Running := False\<rparr>"
      by simp
    with p Some C show ?thesis
      by (simp add: loaded snapshot_lookup_def)
  qed
  have "processes (loadConfig (Config config) NewApp) = processes NewApp"
  proof -
    obtain m' a1' where d: "unmarshal_Servers (Servers config) Map.empty NewApp = (m', a1')"
      by (cases "unmarshal_Servers (Servers config) Map.empty NewApp")
    from unmarshal_Servers_spec [OF d]
      clear_Running_spec [of ?ks "a1'\<lparr>servers := m', nextID := NextID config\<rparr>"]
    show ?thesis
      by (simp add: loadConfig_def d)
  qed
  then have at_startup: "processes (startup (Config config) NewApp) = Map.empty"
    by (simp add: startup_def NewApp_def)
  from next_id records table at_startup show ?thesis
    by blast
qed

text \<open>The restart simulation: a snapshot with one record that was running.\<close>

theorem C7_loadConfig_restores_witness:
  "snapshot_lookup snapshot1 ''1'' \<noteq> None \<and>
   Running (the (snapshot_lookup snapshot1 ''1'')) \<and>
   nextID (startup (Config snapshot1) NewApp) = 2 \<and>
   map_option Running (map_option (store (startup (Config snapshot1) NewApp))
      (servers (startup (Config snapshot1) NewApp) ''1'')) = Some False \<and>
   processes (startup (Config snapshot1) NewApp) = Map.empty"
proof -
  have saved: "snapshot_lookup snapshot1 ''1'' = Some \<lparr>ID = ''1'', Name = ''web1'', Port = ''9090'',
       Directory = ''/srv/app'', Running = True, VLANInterface = ''vlan9090'',
       IPv6Address = ''2a0e:b107:384:ee25::::9090''\<rparr>"
    by (simp add: snapshot_lookup_def snapshot1_def)
  note C7 = C7_loadConfig_restores [of snapshot1 NewApp]
  from C7 have "nextID (loadConfig (Config snapshot1) NewApp) = NextID snapshot1"
    by (rule conjunct1)
  then have next_id: "nextID (startup (Config snapshot1) NewApp) = 2"
    by (simp add: startup_def snapshot1_def)
  from C7 have "map_option (store (loadConfig (Config snapshot1) NewApp))
                      (servers (loadConfig (Config snapshot1) NewApp) ''1'') =
          map_option (\<lambda>server. server\<lparr>Running := False\<rparr>) (snapshot_lookup snapshot1 ''1'')"
    by (simp only:)
  then have flag: "map_option Running (map_option (store (startup (Config snapshot1) NewApp))
      (servers (startup (Config snapshot1) NewApp) ''1'')) = Some False"
    by (auto simp: startup_def saved)
  from C7 have table: "processes (startup (Config snapshot1) NewApp) = Map.empty"
    by (simp only:)
  from saved next_id flag table show ?thesis
    by simp
qed

section \<open>Claims on the identities\<close>


lemma digit_val_digit_char: "d < 10 \<Longrightarrow> digit_val (digit_char d) = Some d"
  by (simp add: digit_val_def digit_char_def)

lemma digit_val_signs: "digit_val (CHR ''-'') = None" "digit_val (CHR ''+'') = None"
  by (simp_all add: digit_val_def)

lemma parse_digits_append:
  "parse_digits acc (xs @ ys) =
     (case parse_digits acc xs of None \<Rightarrow> None | Some n \<Rightarrow> parse_digits n ys)"
  by (induction xs arbitrary: acc) (auto split: option.splits)

lemma parse_digits_dec_nat: "parse_digits 0 (dec_nat n) = Some n"
proof (induction n rule: dec_nat.induct)
  case (1 n)
  show ?case
  proof (cases "n < 10")
    case True
    then show ?thesis
      by (simp add: dec_nat_small digit_val_digit_char)
  next
    case False
    with "1.IH" have "parse_digits 0 (dec_nat (n div 10)) = Some (n div 10)"
      by simp
    with False show ?thesis
      by (simp add: dec_nat_big parse_digits_append digit_val_digit_char)
  qed
qed

lemma dec_nat_head: "\<exists>c cs. dec_nat n = c # cs \<and> digit_val c \<noteq> None"
proof (induction n rule: dec_nat.induct)
  case (1 n)
  show ?case
  proof (cases "n < 10")
    case True
    then show ?thesis
      by (simp add: dec_nat_small digit_val_digit_char)
  next
    case False
    with "1.IH" obtain c cs where "dec_nat (n div 10) = c # cs" "digit_val c \<noteq> None"
      by auto
    with False show ?thesis
      by (simp add: dec_nat_big)
  qed
qed

text \<open>\<open>strconv.Atoi\<close> reads back what \<open>strconv.Itoa\<close> writes.\<close>

lemma Atoi_Itoa: "Atoi (Itoa w) = Some w"
proof -
  have range: "- (2 ^ 63) \<le> sint w" "sint w \<le> 2 ^ 63 - 1"
    using sint_ge [of w] sint_lt [of w] by simp_all
  have word_back: "word_of_int (sint w) = w"
    by simp
  show ?thesis
  proof (cases "sint w < 0")
    case True
    obtain c cs where digits: "dec_nat (nat (- sint w)) = c # cs"
      using dec_nat_head by blast
    from True have "Itoa w = CHR ''-'' # dec_nat (nat (- sint w))"
      by (simp add: Itoa_def)
    moreover from True have "- int (nat (- sint w)) = sint w"
      by simp
    ultimately show ?thesis
      using range word_back digits parse_digits_dec_nat [of "nat (- sint w)"]
      by (simp add: Atoi_def)
  next
    case False
    obtain c cs where digits: "dec_nat (nat (sint w)) = c # cs" and digit: "digit_val c \<noteq> None"
      using dec_nat_head by blast
    from digit have no_sign: "c \<noteq> CHR ''-''" "c \<noteq> CHR ''+''"
      using digit_val_signs by auto
    from False have "Itoa w = dec_nat (nat (sint w))"
      by (simp add: Itoa_def)
    moreover from False have "int (nat (sint w)) = sint w"
      by simp
    moreover have "parse_digits 0 (c # cs) = Some (nat (sint w))"
      using parse_digits_dec_nat [of "nat (sint w)"] digits by simp
    ultimately show ?thesis
      using range word_back digits no_sign
      by (simp add: Atoi_def del: parse_digits.simps)
  qed
qed

lemma sint_succ: "sint (w :: go_int) < 2 ^ 63 - 1 \<Longrightarrow> sint (w + 1) = sint w + 1"
proof -
  assume below: "sint w < 2 ^ 63 - 1"
  have "- (2 ^ 63) \<le> sint w"
    using sint_ge [of w] by simp
  with below have "signed_take_bit 63 (sint w + 1) = sint w + 1"
    by (simp add: signed_take_bit_int_eq_self)
  then show ?thesis
    by (simp add: sint_word_add)
qed

lemma StopServer_keeps: "nextID (snd (StopServer kill_ok sid a)) = nextID a"
  by (auto simp: StopServer_def set_Running_def split: option.splits)

lemma run_op_keeps:
  "\<not> is_create op \<Longrightarrow>
     nextID (run_op op a) = nextID a \<and> dom (servers (run_op op a)) \<subseteq> dom (servers a)"
proof (cases op)
  case (OpUpdateServer kill_ok sid name port directory)
  then show ?thesis
    by (auto simp: UpdateServer_def Let_def StopServer_keeps StopServer_servers split: option.splits)
next
  case (OpDeleteServer kill_ok sid)
  then show ?thesis
    by (auto simp: DeleteServer_def Let_def StopServer_keeps StopServer_servers
        split: option.splits if_splits)
next
  case (OpStartServer env sid)
  then show ?thesis
    by (auto simp: StartServer_def set_Running_def Let_def split: option.splits)
next
  case (OpStopServer kill_ok sid)
  then show ?thesis
    by (simp add: StopServer_keeps StopServer_servers)
qed (auto simp: GetServers_def GetServerStatus_def watcher_def set_Running_def split: option.splits)

lemma next_identity_fresh: "nextID_inv a \<Longrightarrow> Itoa (nextID a) \<notin> dom (servers a)"
proof
  assume inv: "nextID_inv a" and used: "Itoa (nextID a) \<in> dom (servers a)"
  from inv used Atoi_Itoa [of "nextID a"] have "sint (nextID a) < sint (nextID a)"
    unfolding nextID_inv_def by blast
  then show False
    by simp
qed

lemma CreateServer_keeps_inv:
  assumes inv: "nextID_inv a" and room: "sint (nextID a) < 2 ^ 63 - 1"
  shows "nextID_inv (snd (CreateServer name port directory a))"
  unfolding nextID_inv_def
proof (intro ballI allI impI)
  fix sid n
  let ?a' = "snd (CreateServer name port directory a)"
  assume member: "sid \<in> dom (servers ?a')" and number: "Atoi sid = Some n"
  have next': "sint (nextID ?a') = sint (nextID a) + 1"
    using room by (simp add: CreateServer_result sint_succ)
  show "sint n < sint (nextID ?a')"
  proof (cases "sid = Itoa (nextID a)")
    case True
    with number Atoi_Itoa [of "nextID a"] have "n = nextID a"
      by simp
    with next' show ?thesis
      by simp
  next
    case False
    with member have "sid \<in> dom (servers a)"
      by (auto simp: CreateServer_result split: if_splits)
    with inv number have "sint n < sint (nextID a)"
      unfolding nextID_inv_def by blast
    with next' show ?thesis
      by simp
  qed
qed

lemma nextID_inv_last_id: "nextID_inv last_id"
  by (simp add: nextID_inv_def last_id_def NewApp_def)

text \<open>
  C8, as stated, fails at the last identity a 64-bit \<open>int\<close> can issue: the servers map is
  empty and \<open>nextID\<close> is \<open>9223372036854775807\<close>, so the invariant holds; \<open>CreateServer\<close> stores
  that identity and \<open>nextID++\<close> wraps around to \<open>-9223372036854775808\<close>, which is not greater.
\<close>

theorem C8_nextID_overflow_counterexample:
  "nextID_inv last_id \<and> sint (nextID last_id) = 9223372036854775807 \<and>
   sint (nextID (run_op (OpCreateServer ''web'' ''80'' ''/srv'') last_id)) = - 9223372036854775808 \<and>
   \<not> nextID_inv (run_op (OpCreateServer ''web'' ''80'' ''/srv'') last_id)"
proof -
  let ?a' = "run_op (OpCreateServer ''web'' ''80'' ''/srv'') last_id"
  have max: "sint (nextID last_id) = 9223372036854775807"
    by (simp add: last_id_def)
  have wrapped: "sint (nextID ?a') = - 9223372036854775808"
    by (simp add: CreateServer_result last_id_def)
  have "Itoa (nextID last_id) \<in> dom (servers ?a')"
    by (simp add: CreateServer_result)
  moreover have "Atoi (Itoa (nextID last_id)) = Some (nextID last_id)"
    by (rule Atoi_Itoa)
  moreover have "\<not> sint (nextID last_id) < sint (nextID ?a')"
    using max wrapped by simp
  ultimately have "\<not> nextID_inv ?a'"
    unfolding nextID_inv_def by blast
  with nextID_inv_last_id max wrapped show ?thesis
    by simp
qed

text \<open>
  C8, amended. The invariant is preserved by \<open>GetServers\<close>, \<open>UpdateServer\<close>, \<open>DeleteServer\<close>,
  \<open>StartServer\<close>, \<open>StopServer\<close>, \<open>GetServerStatus\<close> and the exit watcher in every state, and by
  \<open>CreateServer\<close> in every state whose \<open>nextID\<close> is below the largest 64-bit integer. Under
  the invariant \<open>CreateServer\<close> issues the identity \<open>Itoa nextID\<close>, which is not in the map, and
  increments \<open>nextID\<close>.
\<close>

theorem C8_nextID_inv_preserved:
  assumes "nextID_inv a" and "is_create op \<longrightarrow> sint (nextID a) < 2 ^ 63 - 1"
  shows "nextID_inv (run_op op a) \<and>
    Itoa (nextID a) \<notin> dom (servers a) \<and>
    fst (CreateServer name port directory a) = Itoa (nextID a) \<and>
    nextID (snd (CreateServer name port directory a)) = nextID a + 1"
proof -
  have preserved: "nextID_inv (run_op op a)"
  proof (cases "is_create op")
    case True
    then obtain name' port' directory' where "op = OpCreateServer name' port' directory'"
      by (cases op) simp_all
    with True assms show ?thesis
      by (simp add: CreateServer_keeps_inv)
  next
    case False
    from run_op_keeps [OF False, of a] assms(1) show ?thesis
      unfolding nextID_inv_def by (metis subsetD)
  qed
  from preserved next_identity_fresh [OF assms(1)] show ?thesis
    by (simp add: CreateServer_result)
qed

lemma nextID_inv_web1: "nextID_inv web1"
  by (simp add: nextID_inv_def web1_servers web1_eq Atoi_eval)

theorem C8_nextID_inv_preserved_witness:
  "nextID_inv web1 \<and> is_create (OpCreateServer ''web2'' ''9091'' ''/srv/two'') \<and>
   sint (nextID web1) < 2 ^ 63 - 1 \<and>
   nextID_inv (run_op (OpCreateServer ''web2'' ''9091'' ''/srv/two'') web1) \<and>
   nextID_inv (run_op (OpDeleteServer True ''1'') web1) \<and>
   ''2'' \<notin> dom (servers web1) \<and>
   fst (CreateServer ''web2'' ''9091'' ''/srv/two'' web1) = ''2'' \<and>
   nextID (snd (CreateServer ''web2'' ''9091'' ''/srv/two'' web1)) = 3"
proof -
  have room: "is_create (OpCreateServer ''web2'' ''9091'' ''/srv/two'') \<longrightarrow>
      sint (nextID web1) < 2 ^ 63 - 1"
    and room': "sint (nextID web1) < 2 ^ 63 - 1"
    by (simp_all add: web1_eq)
  have other: "is_create (OpDeleteServer True ''1'') \<longrightarrow> sint (nextID web1) < 2 ^ 63 - 1"
    by simp
  have two: "Itoa (nextID web1) = ''2''" and three: "nextID web1 + 1 = 3"
    by (simp_all add: web1_eq Itoa_eval)
  note create = C8_nextID_inv_preserved [OF nextID_inv_web1 room, of "''web2''" "''9091''" "''/srv/two''"]
  note delete = C8_nextID_inv_preserved [OF nextID_inv_web1 other, of "''web2''" "''9091''" "''/srv/two''"]
  from create have "nextID_inv (run_op (OpCreateServer ''web2'' ''9091'' ''/srv/two'') web1)"
    by (rule conjunct1)
  moreover from delete have "nextID_inv (run_op (OpDeleteServer True ''1'') web1)"
    by (rule conjunct1)
  moreover from create two three have "''2'' \<notin> dom (servers web1) \<and>
      fst (CreateServer ''web2'' ''9091'' ''/srv/two'' web1) = ''2'' \<and>
      nextID (snd (CreateServer ''web2'' ''9091'' ''/srv/two'' web1)) = 3"
    by simp
  ultimately show ?thesis
    using nextID_inv_web1 room' by simp
qed

end
